theory Spec2Isabelle
  imports Main
begin

section \<open>Data model\<close>

text \<open>
  The Go \<open>error\<close> values the two functions handle. \<open>Errorf s\<close> is the value
  \<open>fmt.Errorf\<close> builds (an error whose text is \<open>s\<close>; the formats of this file use
  \<open>%v\<close> and \<open>%s\<close> only, never \<open>%w\<close>, so nothing is wrapped). \<open>External x\<close> is an
  error handed back by a library (client-go, os, cloud-provider-azure); the type \<open>'x\<close> of
  these is a parameter.
\<close>

datatype 'x error = External 'x | Errorf string

text \<open>A Go call either returns or panics (a nil pointer dereference).\<close>

datatype 'a result = Panic | Return 'a

text \<open>Reading through a pointer: \<open>None\<close> is the nil pointer.\<close>

definition deref :: "'a option \<Rightarrow> 'a result" where
  "deref p = (case p of None \<Rightarrow> Panic | Some v \<Rightarrow> Return v)"

text \<open>
  The parts of the SDK's \<open>network.Subnet\<close> that the driver reads or writes. Pointer
  fields are options. \<open>AddressPrefix\<close> and \<open>Name\<close> stand for the fields the driver
  carries along untouched.
\<close>

record ServiceEndpointPropertiesFormat =
  Service :: "string option"
  Locations :: "string list option"

record SubnetPropertiesFormat =
  AddressPrefix :: "string option"
  ServiceEndpoints :: "ServiceEndpointPropertiesFormat list option"

record Subnet =
  SubnetPropertiesFormat :: "SubnetPropertiesFormat option"
  Name :: "string option"

text \<open>The zero value \<open>network.SubnetPropertiesFormat{}\<close>.\<close>

definition zeroSubnetPropertiesFormat :: SubnetPropertiesFormat where
  "zeroSubnetPropertiesFormat = \<lparr>AddressPrefix = None, ServiceEndpoints = None\<rparr>"

text \<open>
  The \<open>SubnetsClient\<close> interface of the cloud provider, taken as a parameter: its two
  methods act on a remote world \<open>'w\<close> and hand back a \<open>*retry.Error\<close> (type \<open>'e\<close>,
  \<open>None\<close> for nil). The \<open>context.Context\<close> argument carries no data and is left out.
\<close>

record ('w, 'e) SubnetsClient =
  Get :: "'w \<Rightarrow> string \<Rightarrow> string \<Rightarrow> string \<Rightarrow> string \<Rightarrow> (Subnet \<times> 'e option) \<times> 'w"
  CreateOrUpdate :: "'w \<Rightarrow> string \<Rightarrow> string \<Rightarrow> string \<Rightarrow> Subnet \<Rightarrow> 'e option \<times> 'w"

text \<open>
  The fields of \<open>azureprovider.Cloud\<close> that the driver touches. \<open>TenantID\<close> and the
  other configuration fields are promoted fields of the embedded \<open>Config\<close>.
\<close>

record Config =
  TenantID :: string
  SubscriptionID :: string
  ResourceGroup :: string
  VnetResourceGroup :: string
  Location :: string
  VnetName :: string
  SubnetName :: string
  UseInstanceMetadata :: bool

record ('k, 'sc) Cloud =
  Config :: Config
  SecretName :: string
  SecretNamespace :: string
  CloudConfigKey :: string
  UserAgent :: string
  KubeClient :: "'k option"
  SubnetsClient :: "'sc option"

record ('k, 'sc) Driver =
  cloud :: "('k, 'sc) Cloud"

definition storageService :: string where
  "storageService = ''Microsoft.Storage''"

section \<open>The subnet lock map and the calls a run makes\<close>

datatype call =
    LockEntryCall string
  | UnlockEntryCall string
  | GetCall string string string string
  | CreateOrUpdateCall string string string Subnet

text \<open>
  What a run of \<open>updateSubnetServiceEndpoints\<close> acts on: the remote world behind the
  \<open>SubnetsClient\<close>, the driver's \<open>subnetLockMap\<close> (the entries locked at the moment)
  and the log of the calls made so far.
\<close>

record 'w world =
  remote :: 'w
  subnetLockMap :: "string set"
  calls :: "call list"

text \<open>
  Modelled from the spec: the lock map's \<open>LockEntry\<close> and \<open>UnlockEntry\<close>, whose code
  is not among the sources. The spec calls it "a mutual-exclusion primitive keyed by an
  arbitrary string identity". In a sequential run, locking an entry that is held never
  returns: that is the value \<open>None\<close>.
\<close>

definition LockEntry :: "string \<Rightarrow> 'w world \<Rightarrow> 'w world option" where
  "LockEntry entry s =
     (if entry \<in> subnetLockMap s then None
      else Some (s\<lparr>subnetLockMap := insert entry (subnetLockMap s),
                   calls := calls s @ [LockEntryCall entry]\<rparr>))"

definition UnlockEntry :: "string \<Rightarrow> 'w world \<Rightarrow> 'w world" where
  "UnlockEntry entry s =
     s\<lparr>subnetLockMap := subnetLockMap s - {entry},
       calls := calls s @ [UnlockEntryCall entry]\<rparr>"

section \<open>updateSubnetServiceEndpoints\<close>

text \<open>The loop of lines 172 to 178: it stops at the first endpoint of the storage service.\<close>

fun storageServiceExists :: "ServiceEndpointPropertiesFormat list \<Rightarrow> bool" where
  "storageServiceExists [] = False"
| "storageServiceExists (v # vs) =
     (if (case Service v of None \<Rightarrow> False | Some sv \<Rightarrow> sv = storageService) then True
      else storageServiceExists vs)"

text \<open>
  Lines 155 to 191, the statements that run between \<open>LockEntry\<close> and the deferred
  \<open>UnlockEntry\<close>. \<open>fmtv\<close> is how \<open>%v\<close> prints a \<open>*retry.Error\<close>. Every read
  through a pointer of the fetched subnet goes through \<open>deref\<close>. The errors returned
  are all built by \<open>fmt.Errorf\<close>; their type is taken at the type of the remote errors.
\<close>

definition updateSubnetLocked ::
  "('e \<Rightarrow> string) \<Rightarrow> ('w, 'e) SubnetsClient \<Rightarrow> string \<Rightarrow> string \<Rightarrow> string \<Rightarrow> string \<Rightarrow>
   'w world \<Rightarrow> 'e error option result \<times> 'w world" where
  "updateSubnetLocked fmtv client resourceGroup location vnetName subnetName s =
     (let ((subnet, err), w1) = Get client (remote s) resourceGroup vnetName subnetName [];
          s1 = s\<lparr>remote := w1,
                 calls := calls s @ [GetCall resourceGroup vnetName subnetName []]\<rparr>
      in case err of
           Some e \<Rightarrow>
             (Return (Some (Errorf (''failed to get the subnet '' @ subnetName @
                 '' under vnet '' @ vnetName @ '': '' @ fmtv e))), s1)
         | None \<Rightarrow>
            (let endpointLocaions = [location];
                 storageServiceEndpoint =
                   \<lparr>Service = Some storageService, Locations = Some endpointLocaions\<rparr>;
                 subnet = (if SubnetPropertiesFormat subnet = None
                           then subnet\<lparr>SubnetPropertiesFormat := Some zeroSubnetPropertiesFormat\<rparr>
                           else subnet)
             in case deref (SubnetPropertiesFormat subnet) of
                  Panic \<Rightarrow> (Panic, s1)
                | Return props \<Rightarrow>
                   (let props = (if ServiceEndpoints props = None
                                 then props\<lparr>ServiceEndpoints := Some []\<rparr> else props);
                        subnet = subnet\<lparr>SubnetPropertiesFormat := Some props\<rparr>
                    in case deref (ServiceEndpoints props) of
                         Panic \<Rightarrow> (Panic, s1)
                       | Return serviceEndpoints \<Rightarrow>
                          if \<not> storageServiceExists serviceEndpoints then
                            (let serviceEndpoints = serviceEndpoints @ [storageServiceEndpoint];
                                 subnet = subnet\<lparr>SubnetPropertiesFormat :=
                                            Some (props\<lparr>ServiceEndpoints := Some serviceEndpoints\<rparr>)\<rparr>;
                                 (err, w2) = CreateOrUpdate client (remote s1) resourceGroup
                                               vnetName subnetName subnet;
                                 s2 = s1\<lparr>remote := w2,
                                        calls := calls s1 @ [CreateOrUpdateCall resourceGroup
                                                   vnetName subnetName subnet]\<rparr>
                             in case err of
                                  Some e \<Rightarrow>
                                    (Return (Some (Errorf (''failed to update the subnet '' @
                                        subnetName @ '' under vnet '' @ vnetName @ '': '' @
                                        fmtv e))), s2)
                                | None \<Rightarrow> (Return None, s2))
                          else (Return None, s1))))"

text \<open>
  The whole function. The result is \<open>None\<close> when the run never gets past \<open>LockEntry\<close>.
  The deferred \<open>UnlockEntry\<close> runs on every way out of the statements after it, a
  panic included.
\<close>

definition updateSubnetServiceEndpoints ::
  "('e \<Rightarrow> string) \<Rightarrow> ('k, ('w, 'e) SubnetsClient) Driver \<Rightarrow> 'w world \<Rightarrow>
   ('e error option result \<times> 'w world) option" where
  "updateSubnetServiceEndpoints fmtv d s =
     (case SubnetsClient (cloud d) of
        None \<Rightarrow> Some (Return (Some (Errorf ''SubnetsClient is nil'')), s)
      | Some client \<Rightarrow>
         (let resourceGroup = ResourceGroup (Config (cloud d));
              resourceGroup = (if length (VnetResourceGroup (Config (cloud d))) > 0
                               then VnetResourceGroup (Config (cloud d)) else resourceGroup);
              location = Location (Config (cloud d));
              vnetName = VnetName (Config (cloud d));
              subnetName = SubnetName (Config (cloud d));
              lockKey = resourceGroup @ vnetName @ subnetName
          in case LockEntry lockKey s of
               None \<Rightarrow> None
             | Some s1 \<Rightarrow>
                (let (r, s2) = updateSubnetLocked fmtv client resourceGroup location vnetName
                                 subnetName s1
                 in Some (r, UnlockEntry lockKey s2))))"

section \<open>getCloudProvider\<close>

definition DefaultAzureCredentialFileEnv :: string where
  "DefaultAzureCredentialFileEnv = ''AZURE_CREDENTIAL_FILE''"

definition DefaultCredFilePathLinux :: string where
  "DefaultCredFilePathLinux = ''/etc/kubernetes/azure.json''"

text \<open>The Go literal \<open>"C:\\k\\azure.json"\<close>: each escaped pair is one backslash (byte 0x5C).\<close>

definition DefaultCredFilePathWindows :: string where
  "DefaultCredFilePathWindows = ''C:'' @ [CHR 0x5C] @ ''k'' @ [CHR 0x5C] @ ''azure.json''"

text \<open>
  What \<open>getCloudProvider\<close> calls outside this file, taken as parameters: client-go
  (\<open>BuildConfigFromFlags\<close>, \<open>InClusterConfig\<close>, \<open>NewForConfig\<close>, the sentinel
  \<open>ErrNotInCluster\<close>), the os package (\<open>IsNotExist\<close>, \<open>LookupEnv\<close>, \<open>Open\<close>),
  \<open>runtime.GOOS\<close>, the cloud provider (\<open>InitializeCloudFromSecret\<close>, which fills the
  \<open>Cloud\<close> it is called on, and \<open>NewCloudWithoutFeatureGates\<close>) and the text of a
  library error. A Go result \<open>(value, error)\<close> is a pair, a pointer an option: each call
  may hand back any value of its Go type. \<open>'k\<close> is the clientset, \<open>'c\<close> the rest
  configuration, \<open>'f\<close> the open file.
\<close>

record ('x, 'k, 'c, 'f, 'sc) env =
  BuildConfigFromFlags :: "string \<Rightarrow> string \<Rightarrow> 'c option \<times> 'x error option"
  InClusterConfig :: "'c option \<times> 'x error option"
  NewForConfig :: "'c option \<Rightarrow> 'k option \<times> 'x error option"
  ErrNotInCluster :: "'x"
  IsNotExist :: "'x \<Rightarrow> bool"
  ErrorText :: "'x \<Rightarrow> string"
  InitializeCloudFromSecret :: "('k, 'sc) Cloud \<Rightarrow> ('k, 'sc) Cloud \<times> 'x error option"
  LookupEnv :: "string \<Rightarrow> string \<times> bool"
  GOOS :: string
  Open :: "string \<Rightarrow> 'f option \<times> 'x error option"
  NewCloudWithoutFeatureGates :: "'f option \<Rightarrow> bool \<Rightarrow> ('k, 'sc) Cloud option \<times> 'x error option"

text \<open>\<open>os.IsNotExist\<close> on an \<open>error\<close>: false on nil and on what \<open>fmt.Errorf\<close> built.\<close>

definition os_IsNotExist :: "('x, 'k, 'c, 'f, 'sc) env \<Rightarrow> 'x error option \<Rightarrow> bool" where
  "os_IsNotExist env err =
     (case err of
        None \<Rightarrow> False
      | Some (External x) \<Rightarrow> IsNotExist env x
      | Some (Errorf t) \<Rightarrow> False)"

text \<open>How \<open>%v\<close> prints an \<open>error\<close>: its text, and \<open><nil>\<close> for nil.\<close>

definition fmtError :: "('x, 'k, 'c, 'f, 'sc) env \<Rightarrow> 'x error option \<Rightarrow> string" where
  "fmtError env err =
     (case err of
        None \<Rightarrow> ''<nil>''
      | Some (External x) \<Rightarrow> ErrorText env x
      | Some (Errorf t) \<Rightarrow> t)"

text \<open>The zero value \<open>azureprovider.Cloud{}\<close>.\<close>

definition zeroConfig :: Config where
  "zeroConfig = \<lparr>TenantID = [], SubscriptionID = [], ResourceGroup = [],
     VnetResourceGroup = [], Location = [], VnetName = [], SubnetName = [],
     UseInstanceMetadata = False\<rparr>"

definition zeroCloud :: "('k, 'sc) Cloud" where
  "zeroCloud = \<lparr>Config = zeroConfig, SecretName = [], SecretNamespace = [],
     CloudConfigKey = [], UserAgent = [], KubeClient = None, SubnetsClient = None\<rparr>"

text \<open>Lines 118 to 134.\<close>

definition getKubeClient :: "('x, 'k, 'c, 'f, 'sc) env \<Rightarrow> string \<Rightarrow> 'k option \<times> 'x error option" where
  "getKubeClient env kubeconfig =
     (if kubeconfig \<noteq> [] then
        (let (config, err) = BuildConfigFromFlags env [] kubeconfig
         in if err \<noteq> None then (None, err) else NewForConfig env config)
      else
        (let (config, err) = InClusterConfig env
         in if err \<noteq> None then (None, err) else NewForConfig env config))"

text \<open>
  Lines 47 to 67: the \<open>Cloud\<close> is made, the clientset is built and, when there is one,
  the cloud is initialised from the secret. \<open>Inl\<close> is the return of line 57; \<open>Inr\<close>
  carries \<open>az\<close>, \<open>kubeClient\<close> and \<open>err\<close> as they stand at line 68.
\<close>

definition getCloudProvider_secret ::
  "('x, 'k, 'c, 'f, 'sc) env \<Rightarrow> string \<Rightarrow> string \<Rightarrow> string \<Rightarrow> string \<Rightarrow>
   (('k, 'sc) Cloud \<times> 'x error) + (('k, 'sc) Cloud \<times> 'k option \<times> 'x error option)" where
  "getCloudProvider_secret env kubeconfig secretName secretNamespace userAgent =
     (let az = zeroCloud\<lparr>SecretName := secretName, SecretNamespace := secretNamespace,
                 CloudConfigKey := ''cloud-config''\<rparr>;
          az = az\<lparr>UserAgent := userAgent\<rparr>;
          (kubeClient, err) = getKubeClient env kubeconfig
      in if err \<noteq> None \<and> \<not> os_IsNotExist env err \<and>
            err \<noteq> Some (External (ErrNotInCluster env))
         then Inl (az, Errorf (''failed to get KubeClient: '' @ fmtError env err))
         else if kubeClient \<noteq> None then
           (let az = az\<lparr>KubeClient := kubeClient\<rparr>;
                (az, err) = InitializeCloudFromSecret env az
            in Inr (az, kubeClient, err))
         else Inr (az, kubeClient, err))"

text \<open>
  Lines 69 to 91: \<open>az\<close> and \<open>err\<close> after the block, and the files it opened. The
  result of \<open>NewCloudWithoutFeatureGates\<close> replaces \<open>az\<close> whatever it is (line 89), so
  \<open>az\<close> is an option from here on.
\<close>

definition getCloudProvider_file ::
  "('x, 'k, 'c, 'f, 'sc) env \<Rightarrow> ('k, 'sc) Cloud \<Rightarrow> 'x error option \<Rightarrow>
   ('k, 'sc) Cloud option \<times> 'x error option \<times> string list" where
  "getCloudProvider_file env az err =
     (if TenantID (Config az) = [] \<or> SubscriptionID (Config az) = [] \<or>
         ResourceGroup (Config az) = [] then
        (let (credFile, ok) = LookupEnv env DefaultAzureCredentialFileEnv;
             credFile = (if ok then credFile
                         else if GOOS env = ''windows'' then DefaultCredFilePathWindows
                         else DefaultCredFilePathLinux);
             (config, errOpenFile) = Open env credFile
         in if errOpenFile \<noteq> None then
              (Some az, Some (Errorf (''load azure config from file('' @ credFile @
                 '') failed with '' @ fmtError env errOpenFile)), [credFile])
            else
              (let (az, err) = NewCloudWithoutFeatureGates env config False
               in (az, err, [credFile])))
      else (Some az, err, []))"

text \<open>
  Lines 93 to 115, after the two blocks: the clientset is put back (line 94 reads
  \<open>az.KubeClient\<close> only when \<open>kubeClient\<close> is not nil), and the controller switches
  \<open>UseInstanceMetadata\<close> off when \<open>err\<close> is nil. The second component is nil on
  every way out (line 115).
\<close>

definition getCloudProvider_finish ::
  "string \<Rightarrow> 'k option \<Rightarrow> ('k, 'sc) Cloud option \<Rightarrow> 'x error option \<Rightarrow>
   (('k, 'sc) Cloud option \<times> 'x error option) result" where
  "getCloudProvider_finish nodeID kubeClient az err =
     (case (if kubeClient \<noteq> None then
              (case deref az of
                 Panic \<Rightarrow> Panic
               | Return a \<Rightarrow>
                   if KubeClient a = None then Return (Some (a\<lparr>KubeClient := kubeClient\<rparr>))
                   else Return az)
            else Return az) of
        Panic \<Rightarrow> Panic
      | Return az \<Rightarrow>
         (let isController = (nodeID = [])
          in if isController then
               (if err = None then
                  (case deref az of
                     Panic \<Rightarrow> Panic
                   | Return a \<Rightarrow>
                       Return (Some (a\<lparr>Config := (Config a)\<lparr>UseInstanceMetadata := False\<rparr>\<rparr>),
                               None))
                else Return (az, None))
             else Return (az, None)))"

text \<open>
  The whole function: what it returns (or that it panics) and the files it opened.
  The logging calls have no part in the result and are left out, as is the deferred
  \<open>config.Close\<close>.
\<close>

definition getCloudProvider ::
  "('x, 'k, 'c, 'f, 'sc) env \<Rightarrow> string \<Rightarrow> string \<Rightarrow> string \<Rightarrow> string \<Rightarrow> string \<Rightarrow>
   (('k, 'sc) Cloud option \<times> 'x error option) result \<times> string list" where
  "getCloudProvider env kubeconfig nodeID secretName secretNamespace userAgent =
     (case getCloudProvider_secret env kubeconfig secretName secretNamespace userAgent of
        Inl (az, e) \<Rightarrow> (Return (Some az, Some e), [])
      | Inr (az, kubeClient, err) \<Rightarrow>
         (let (az, err, opened) = getCloudProvider_file env az err
          in (getCloudProvider_finish nodeID kubeClient az err, opened)))"

section \<open>Notions used to state the properties\<close>

text \<open>
  The resource group that lines 141 to 144 choose and the lock key that line 151 builds,
  as functions of the configuration.
\<close>

definition effectiveResourceGroup :: "Config \<Rightarrow> string" where
  "effectiveResourceGroup c =
     (if length (VnetResourceGroup c) > 0 then VnetResourceGroup c else ResourceGroup c)"

definition lockKey :: "Config \<Rightarrow> string" where
  "lockKey c = effectiveResourceGroup c @ VnetName c @ SubnetName c"

text \<open>The service-endpoint list of a subnet, a missing part read as the empty list.\<close>

definition endpointsOf :: "Subnet \<Rightarrow> ServiceEndpointPropertiesFormat list" where
  "endpointsOf subnet =
     (case SubnetPropertiesFormat subnet of
        None \<Rightarrow> []
      | Some props \<Rightarrow> (case ServiceEndpoints props of None \<Rightarrow> [] | Some eps \<Rightarrow> eps))"

text \<open>
  The subnet that lines 165 to 182 build from a fetched one that has no storage
  endpoint: the missing parts initialised, the endpoint for the location appended, all
  else as fetched.
\<close>

definition withStorageEndpoint :: "string \<Rightarrow> Subnet \<Rightarrow> Subnet" where
  "withStorageEndpoint location subnet =
     subnet\<lparr>SubnetPropertiesFormat := Some
       ((case SubnetPropertiesFormat subnet of
           None \<Rightarrow> zeroSubnetPropertiesFormat
         | Some props \<Rightarrow> props)
          \<lparr>ServiceEndpoints := Some (endpointsOf subnet @
              [\<lparr>Service = Some storageService, Locations = Some [location]\<rparr>])\<rparr>)\<rparr>"

text \<open>The \<open>CreateOrUpdate\<close> calls of a log, and the subnets they wrote.\<close>

fun isCreateOrUpdate :: "call \<Rightarrow> bool" where
  "isCreateOrUpdate (CreateOrUpdateCall rg vn sn subnet) = True"
| "isCreateOrUpdate c = False"

fun isLockCall :: "call \<Rightarrow> bool" where
  "isLockCall (LockEntryCall k) = True"
| "isLockCall (UnlockEntryCall k) = True"
| "isLockCall c = False"

fun isGet :: "call \<Rightarrow> bool" where
  "isGet (GetCall rg vn sn expand) = True"
| "isGet c = False"

fun writtenSubnets :: "call list \<Rightarrow> Subnet list" where
  "writtenSubnets [] = []"
| "writtenSubnets (CreateOrUpdateCall rg vn sn subnet # cs) = subnet # writtenSubnets cs"
| "writtenSubnets (c # cs) = writtenSubnets cs"

text \<open>How many endpoints of a list name the storage service.\<close>

definition storageCount :: "ServiceEndpointPropertiesFormat list \<Rightarrow> nat" where
  "storageCount eps = length (filter (\<lambda>v. Service v = Some storageService) eps)"

text \<open>
  The claim's words "the storage service endpoint is registered for the location": some
  endpoint names the storage service and lists the location.
\<close>

definition storageRegisteredForLocation :: "string \<Rightarrow> Subnet \<Rightarrow> bool" where
  "storageRegisteredForLocation location subnet =
     (\<exists>v \<in> set (endpointsOf subnet).
        Service v = Some storageService \<and>
        (case Locations v of None \<Rightarrow> False | Some ls \<Rightarrow> location \<in> set ls))"

text \<open>
  A remote that behaves as a store of subnets: \<open>Get\<close> only reads, a write that fails
  changes nothing, and after a write that succeeds \<open>Get\<close> hands back what was written.
\<close>

definition storeLike :: "('w, 'e) SubnetsClient \<Rightarrow> bool" where
  "storeLike client =
     ((\<forall>w rg vn sn x. snd (Get client w rg vn sn x) = w) \<and>
      (\<forall>w rg vn sn subnet e. fst (CreateOrUpdate client w rg vn sn subnet) = Some e \<longrightarrow>
          snd (CreateOrUpdate client w rg vn sn subnet) = w) \<and>
      (\<forall>w rg vn sn subnet x. fst (CreateOrUpdate client w rg vn sn subnet) = None \<longrightarrow>
          fst (Get client (snd (CreateOrUpdate client w rg vn sn subnet)) rg vn sn x) =
            (subnet, None)))"

text \<open>
  Modelled from the spec: the "cloud networking API exposing subnet Get/CreateOrUpdate",
  whose state "lives server-side" and whose code is not among the sources. Each
  (resource group, vnet, subnet) holds a subnet or the error that fetching it gives;
  \<open>putFault\<close> is the error, if any, that writing it gives.
\<close>

record 'e remoteStore =
  subnets :: "string \<times> string \<times> string \<Rightarrow> 'e + Subnet"
  putFault :: "string \<times> string \<times> string \<Rightarrow> 'e option"

definition zeroSubnet :: Subnet where
  "zeroSubnet = \<lparr>SubnetPropertiesFormat = None, Name = None\<rparr>"

definition storeGet ::
  "'e remoteStore \<Rightarrow> string \<Rightarrow> string \<Rightarrow> string \<Rightarrow> string \<Rightarrow> (Subnet \<times> 'e option) \<times> 'e remoteStore" where
  "storeGet w rg vn sn expand =
     (case subnets w (rg, vn, sn) of
        Inl e \<Rightarrow> ((zeroSubnet, Some e), w)
      | Inr subnet \<Rightarrow> ((subnet, None), w))"

definition storeCreateOrUpdate ::
  "'e remoteStore \<Rightarrow> string \<Rightarrow> string \<Rightarrow> string \<Rightarrow> Subnet \<Rightarrow> 'e option \<times> 'e remoteStore" where
  "storeCreateOrUpdate w rg vn sn subnet =
     (case putFault w (rg, vn, sn) of
        Some e \<Rightarrow> (Some e, w)
      | None \<Rightarrow> (None, w\<lparr>subnets := (subnets w)((rg, vn, sn) := Inr subnet)\<rparr>))"

definition storeClient :: "('e remoteStore, 'e) SubnetsClient" where
  "storeClient = \<lparr>Get = storeGet, CreateOrUpdate = storeCreateOrUpdate\<rparr>"

section \<open>Example inputs\<close>

text \<open>
  A driver configured for the subnet \<open>subnet\<close> of the vnet \<open>vnet\<close> in the resource
  group \<open>rg\<close>, location \<open>eastus\<close>, on a store that holds one subnet; library errors
  are their texts.
\<close>

definition exampleConfig :: Config where
  "exampleConfig = \<lparr>TenantID = ''tenant'', SubscriptionID = ''sub'', ResourceGroup = ''rg'',
     VnetResourceGroup = [], Location = ''eastus'', VnetName = ''vnet'',
     SubnetName = ''subnet'', UseInstanceMetadata = True\<rparr>"

definition exampleDriver :: "(unit, (string remoteStore, string) SubnetsClient) Driver" where
  "exampleDriver = \<lparr>cloud = \<lparr>Config = exampleConfig, SecretName = [], SecretNamespace = [],
     CloudConfigKey = [], UserAgent = [], KubeClient = None,
     SubnetsClient = Some storeClient\<rparr>\<rparr>"

definition noClientDriver :: "(unit, (string remoteStore, string) SubnetsClient) Driver" where
  "noClientDriver = \<lparr>cloud = \<lparr>Config = exampleConfig, SecretName = [], SecretNamespace = [],
     CloudConfigKey = [], UserAgent = [], KubeClient = None, SubnetsClient = None\<rparr>\<rparr>"

definition exampleStore :: "Subnet \<Rightarrow> string remoteStore" where
  "exampleStore subnet =
     \<lparr>subnets = (\<lambda>k. if k = (''rg'', ''vnet'', ''subnet'') then Inr subnet
                     else Inl ''ResourceNotFound''),
      putFault = (\<lambda>k. None)\<rparr>"

definition exampleWorld :: "Subnet \<Rightarrow> string remoteStore world" where
  "exampleWorld subnet = \<lparr>remote = exampleStore subnet, subnetLockMap = {}, calls = []\<rparr>"

text \<open>A subnet with no properties at all, and one whose storage endpoint is for \<open>westus\<close>.\<close>

definition bareSubnet :: Subnet where
  "bareSubnet = \<lparr>SubnetPropertiesFormat = None, Name = Some ''subnet''\<rparr>"

definition westusSubnet :: Subnet where
  "westusSubnet =
     \<lparr>SubnetPropertiesFormat = Some
        \<lparr>AddressPrefix = Some ''10.0.0.0/24'',
         ServiceEndpoints = Some
           [\<lparr>Service = Some ''Microsoft.Storage'', Locations = Some [''westus'']\<rparr>]\<rparr>,
      Name = Some ''subnet''\<rparr>"

text \<open>A store on which every fetch fails.\<close>

definition failingStore :: "string remoteStore" where
  "failingStore = \<lparr>subnets = (\<lambda>k. Inl ''boom''), putFault = (\<lambda>k. None)\<rparr>"

definition failingWorld :: "string remoteStore world" where
  "failingWorld = \<lparr>remote = failingStore, subnetLockMap = {}, calls = []\<rparr>"

text \<open>A store on which every write fails.\<close>

definition readOnlyWorld :: "string remoteStore world" where
  "readOnlyWorld =
     \<lparr>remote = \<lparr>subnets = (\<lambda>k. Inr bareSubnet), putFault = (\<lambda>k. Some ''denied'')\<rparr>,
      subnetLockMap = {}, calls = []\<rparr>"

text \<open>
  Environments for \<open>getCloudProvider\<close>. In \<open>exampleEnv\<close> the process is outside a
  cluster, no kubeconfig can be read, the variable \<open>AZURE_CREDENTIAL_FILE\<close> is unset and
  no credential file is there. In \<open>badFileEnv\<close> the variable names a file that opens and
  that \<open>NewCloudWithoutFeatureGates\<close> rejects, handing back a nil \<open>Cloud\<close> with its
  error; \<open>badFileInClusterEnv\<close> is the same inside a cluster. In \<open>goodFileEnv\<close> the
  file is accepted.
\<close>

definition exampleEnv :: "(string, string, string, string, unit) env" where
  "exampleEnv =
     \<lparr>BuildConfigFromFlags = (\<lambda>masterUrl kubeconfig. (None, Some (External ''invalid configuration''))),
      InClusterConfig = (None, Some (External ''not in cluster'')),
      NewForConfig = (\<lambda>config. (Some ''clientset'', None)),
      ErrNotInCluster = ''not in cluster'',
      IsNotExist = (\<lambda>x. x = ''no such file or directory''),
      ErrorText = (\<lambda>x. x),
      InitializeCloudFromSecret = (\<lambda>az. (az, Some (External ''secret not found''))),
      LookupEnv = (\<lambda>name. ([], False)),
      GOOS = ''linux'',
      Open = (\<lambda>path. (None, Some (External ''no such file or directory''))),
      NewCloudWithoutFeatureGates = (\<lambda>config callFromCCM. (None, Some (External ''invalid character'')))\<rparr>"

definition badFileEnv :: "(string, string, string, string, unit) env" where
  "badFileEnv = exampleEnv
     \<lparr>LookupEnv := (\<lambda>name. if name = ''AZURE_CREDENTIAL_FILE'' then (''/tmp/azure.json'', True)
                            else ([], False)),
      Open := (\<lambda>path. if path = ''/tmp/azure.json'' then (Some ''not json'', None)
                       else (None, Some (External ''no such file or directory'')))\<rparr>"

definition badFileInClusterEnv :: "(string, string, string, string, unit) env" where
  "badFileInClusterEnv = badFileEnv\<lparr>InClusterConfig := (Some ''in-cluster'', None)\<rparr>"

definition windowsEnv :: "(string, string, string, string, unit) env" where
  "windowsEnv = exampleEnv\<lparr>GOOS := ''windows''\<rparr>"

definition exampleCloud :: "(string, unit) Cloud" where
  "exampleCloud = \<lparr>Config = exampleConfig, SecretName = [], SecretNamespace = [],
     CloudConfigKey = [], UserAgent = [], KubeClient = None, SubnetsClient = None\<rparr>"

definition goodFileEnv :: "(string, string, string, string, unit) env" where
  "goodFileEnv = badFileEnv
     \<lparr>NewCloudWithoutFeatureGates := (\<lambda>config callFromCCM. (Some exampleCloud, None))\<rparr>"

section \<open>Lemmas on updateSubnetServiceEndpoints\<close>

lemma storageServiceExists_iff:
  "storageServiceExists eps \<longleftrightarrow> (\<exists>v \<in> set eps. Service v = Some storageService)"
  by (induction eps) (auto split: option.splits)

lemma storageCount_absent:
  "\<not> storageServiceExists eps \<Longrightarrow> storageCount eps = 0"
  by (simp add: storageServiceExists_iff storageCount_def)

lemma endpointsOf_withStorageEndpoint:
  "endpointsOf (withStorageEndpoint loc subnet) =
     endpointsOf subnet @ [\<lparr>Service = Some storageService, Locations = Some [loc]\<rparr>]"
  by (simp add: endpointsOf_def withStorageEndpoint_def)

lemma storageServiceExists_withStorageEndpoint:
  "storageServiceExists (endpointsOf (withStorageEndpoint loc subnet))"
  by (simp add: endpointsOf_withStorageEndpoint storageServiceExists_iff)

lemma updateSubnetLocked_getError:
  assumes "Get client (remote s) rg vn sn [] = ((subnet, Some e), w1)"
  shows "updateSubnetLocked fmtv client rg loc vn sn s =
           (Return (Some (Errorf (''failed to get the subnet '' @ sn @ '' under vnet '' @ vn @
              '': '' @ fmtv e))),
            s\<lparr>remote := w1, calls := calls s @ [GetCall rg vn sn []]\<rparr>)"
  using assms by (simp add: updateSubnetLocked_def)

lemma updateSubnetLocked_exists:
  assumes "Get client (remote s) rg vn sn [] = ((subnet, None), w1)"
    and "storageServiceExists (endpointsOf subnet)"
  shows "updateSubnetLocked fmtv client rg loc vn sn s =
           (Return None, s\<lparr>remote := w1, calls := calls s @ [GetCall rg vn sn []]\<rparr>)"
  using assms
  by (auto simp: updateSubnetLocked_def endpointsOf_def deref_def Let_def
      split: option.splits)

lemma updateSubnetLocked_absent:
  assumes "Get client (remote s) rg vn sn [] = ((subnet, None), w1)"
    and "\<not> storageServiceExists (endpointsOf subnet)"
    and "CreateOrUpdate client w1 rg vn sn (withStorageEndpoint loc subnet) = (err, w2)"
  shows "updateSubnetLocked fmtv client rg loc vn sn s =
           ((case err of
               None \<Rightarrow> Return None
             | Some e \<Rightarrow> Return (Some (Errorf (''failed to update the subnet '' @ sn @
                 '' under vnet '' @ vn @ '': '' @ fmtv e)))),
            s\<lparr>remote := w2,
              calls := calls s @ [GetCall rg vn sn [],
                CreateOrUpdateCall rg vn sn (withStorageEndpoint loc subnet)]\<rparr>)"
  using assms
  by (auto simp: updateSubnetLocked_def endpointsOf_def withStorageEndpoint_def deref_def Let_def
      zeroSubnetPropertiesFormat_def
      split: option.splits)

text \<open>The three outcomes of the locked part in one equation.\<close>

lemma updateSubnetLocked_eq:
  "updateSubnetLocked fmtv client rg loc vn sn s =
     (case Get client (remote s) rg vn sn [] of
        ((subnet, Some e), w1) \<Rightarrow>
          (Return (Some (Errorf (''failed to get the subnet '' @ sn @ '' under vnet '' @ vn @
              '': '' @ fmtv e))),
           s\<lparr>remote := w1, calls := calls s @ [GetCall rg vn sn []]\<rparr>)
      | ((subnet, None), w1) \<Rightarrow>
          if storageServiceExists (endpointsOf subnet)
          then (Return None, s\<lparr>remote := w1, calls := calls s @ [GetCall rg vn sn []]\<rparr>)
          else (case CreateOrUpdate client w1 rg vn sn (withStorageEndpoint loc subnet) of
                  (err, w2) \<Rightarrow>
                    ((case err of
                        None \<Rightarrow> Return None
                      | Some e \<Rightarrow> Return (Some (Errorf (''failed to update the subnet '' @ sn @
                          '' under vnet '' @ vn @ '': '' @ fmtv e)))),
                     s\<lparr>remote := w2,
                       calls := calls s @ [GetCall rg vn sn [],
                         CreateOrUpdateCall rg vn sn (withStorageEndpoint loc subnet)]\<rparr>)))"
proof (cases "Get client (remote s) rg vn sn []")
  case (Pair a w1)
  obtain subnet err where a: "a = (subnet, err)" by (cases a)
  show ?thesis
  proof (cases err)
    case None
    show ?thesis
    proof (cases "storageServiceExists (endpointsOf subnet)")
      case True
      with Pair a None show ?thesis by (simp add: updateSubnetLocked_exists)
    next
      case False
      obtain e2 w2 where
        cu: "CreateOrUpdate client w1 rg vn sn (withStorageEndpoint loc subnet) = (e2, w2)"
        by (cases "CreateOrUpdate client w1 rg vn sn (withStorageEndpoint loc subnet)")
      from Pair a None False cu show ?thesis
        by (simp add: updateSubnetLocked_absent)
    qed
  next
    case (Some e)
    with Pair a show ?thesis by (simp add: updateSubnetLocked_getError)
  qed
qed

lemma updateSubnetServiceEndpoints_unfold:
  assumes "SubnetsClient (cloud d) = Some client"
  shows "updateSubnetServiceEndpoints fmtv d s =
     (if lockKey (Config (cloud d)) \<in> subnetLockMap s then None
      else (case updateSubnetLocked fmtv client (effectiveResourceGroup (Config (cloud d)))
                   (Location (Config (cloud d))) (VnetName (Config (cloud d)))
                   (SubnetName (Config (cloud d)))
                   (s\<lparr>subnetLockMap := insert (lockKey (Config (cloud d))) (subnetLockMap s),
                      calls := calls s @ [LockEntryCall (lockKey (Config (cloud d)))]\<rparr>) of
              (r, s2) \<Rightarrow> Some (r, UnlockEntry (lockKey (Config (cloud d))) s2)))"
  using assms
  by (simp add: updateSubnetServiceEndpoints_def lockKey_def effectiveResourceGroup_def
      LockEntry_def Let_def)

text \<open>A run that finds its lock free, start to end.\<close>

lemma updateSubnetServiceEndpoints_eq:
  assumes "SubnetsClient (cloud d) = Some client"
    and "lockKey (Config (cloud d)) \<notin> subnetLockMap s"
    and "k = lockKey (Config (cloud d))"
    and "rg = effectiveResourceGroup (Config (cloud d))"
    and "loc = Location (Config (cloud d))"
    and "vn = VnetName (Config (cloud d))"
    and "sn = SubnetName (Config (cloud d))"
  shows "updateSubnetServiceEndpoints fmtv d s =
     Some (case Get client (remote s) rg vn sn [] of
        ((subnet, Some e), w1) \<Rightarrow>
          (Return (Some (Errorf (''failed to get the subnet '' @ sn @ '' under vnet '' @ vn @
              '': '' @ fmtv e))),
           s\<lparr>remote := w1,
             calls := calls s @ [LockEntryCall k, GetCall rg vn sn [], UnlockEntryCall k]\<rparr>)
      | ((subnet, None), w1) \<Rightarrow>
          if storageServiceExists (endpointsOf subnet)
          then (Return None,
                s\<lparr>remote := w1,
                  calls := calls s @ [LockEntryCall k, GetCall rg vn sn [], UnlockEntryCall k]\<rparr>)
          else (case CreateOrUpdate client w1 rg vn sn (withStorageEndpoint loc subnet) of
                  (err, w2) \<Rightarrow>
                    ((case err of
                        None \<Rightarrow> Return None
                      | Some e \<Rightarrow> Return (Some (Errorf (''failed to update the subnet '' @ sn @
                          '' under vnet '' @ vn @ '': '' @ fmtv e)))),
                     s\<lparr>remote := w2,
                       calls := calls s @ [LockEntryCall k, GetCall rg vn sn [],
                         CreateOrUpdateCall rg vn sn (withStorageEndpoint loc subnet),
                         UnlockEntryCall k]\<rparr>)))"
  using assms
  by (simp add: updateSubnetServiceEndpoints_unfold [of d client] updateSubnetLocked_eq
      UnlockEntry_def split: prod.splits option.splits)

lemma exampleDriver_simps:
  "SubnetsClient (cloud exampleDriver) = Some storeClient"
  "lockKey (Config (cloud exampleDriver)) = ''rgvnetsubnet''"
  "effectiveResourceGroup (Config (cloud exampleDriver)) = ''rg''"
  "Location (Config (cloud exampleDriver)) = ''eastus''"
  "VnetName (Config (cloud exampleDriver)) = ''vnet''"
  "SubnetName (Config (cloud exampleDriver)) = ''subnet''"
  by (simp_all add: exampleDriver_def exampleConfig_def lockKey_def effectiveResourceGroup_def)

section \<open>Claims on updateSubnetServiceEndpoints\<close>

text \<open>
  Claim C6. When the subnet that \<open>Get\<close> hands back already has a service endpoint
  whose service name is \<open>Microsoft.Storage\<close>, a run that gets its lock makes three
  calls and no more (\<open>LockEntry\<close>, \<open>Get\<close>, \<open>UnlockEntry\<close>): \<open>CreateOrUpdate\<close> is
  never called, the remote world is the one \<open>Get\<close> left, and the function returns nil.
  (A run that finds its lock held makes no call at all.)
\<close>

theorem updateSubnet_present_no_write:
  assumes "SubnetsClient (cloud d) = Some client"
    and "Get client (remote s) (effectiveResourceGroup (Config (cloud d)))
           (VnetName (Config (cloud d))) (SubnetName (Config (cloud d))) [] =
         ((subnet, None), w1)"
    and "\<exists>v \<in> set (endpointsOf subnet). Service v = Some storageService"
  shows "updateSubnetServiceEndpoints fmtv d s =
     (if lockKey (Config (cloud d)) \<in> subnetLockMap s then None
      else Some (Return None,
        s\<lparr>remote := w1,
          calls := calls s @
            [LockEntryCall (lockKey (Config (cloud d))),
             GetCall (effectiveResourceGroup (Config (cloud d))) (VnetName (Config (cloud d)))
               (SubnetName (Config (cloud d))) [],
             UnlockEntryCall (lockKey (Config (cloud d)))]\<rparr>))"
proof (cases "lockKey (Config (cloud d)) \<in> subnetLockMap s")
  case True
  with assms(1) show ?thesis
    by (simp add: updateSubnetServiceEndpoints_unfold [of d client])
next
  case False
  from assms(3) have "storageServiceExists (endpointsOf subnet)"
    by (simp add: storageServiceExists_iff)
  with False assms(1,2) show ?thesis
    by (simp add: updateSubnetServiceEndpoints_eq [OF assms(1) False refl refl refl refl refl])
qed

theorem updateSubnet_present_no_write_witness:
  "(\<exists>v \<in> set (endpointsOf westusSubnet). Service v = Some storageService) \<and>
   updateSubnetServiceEndpoints (\<lambda>e. e) exampleDriver (exampleWorld westusSubnet) =
     Some (Return None,
       \<lparr>remote = exampleStore westusSubnet, subnetLockMap = {},
        calls = [LockEntryCall ''rgvnetsubnet'', GetCall ''rg'' ''vnet'' ''subnet'' [],
                 UnlockEntryCall ''rgvnetsubnet'']\<rparr>)"
proof -
  have present: "\<exists>v \<in> set (endpointsOf westusSubnet). Service v = Some storageService"
    by (simp add: endpointsOf_def westusSubnet_def storageService_def)
  have get: "Get storeClient (remote (exampleWorld westusSubnet))
      (effectiveResourceGroup (Config (cloud exampleDriver)))
      (VnetName (Config (cloud exampleDriver))) (SubnetName (Config (cloud exampleDriver))) [] =
      ((westusSubnet, None), exampleStore westusSubnet)"
    by (simp add: exampleDriver_simps storeClient_def storeGet_def exampleWorld_def
        exampleStore_def)
  from updateSubnet_present_no_write [OF exampleDriver_simps(1) get present, of "\<lambda>e. e"] present
  show ?thesis
    by (simp add: exampleDriver_simps exampleWorld_def)
qed

text \<open>
  Claim C2, as stated: the endpoint is appended and the subnet written back exactly when
  no storage endpoint registered for the driver's location is there. It fails: the
  fetched subnet below has a storage endpoint for \<open>westus\<close> only, the driver's location
  is \<open>eastus\<close>, and the run writes nothing.
\<close>

theorem updateSubnet_location_counterexample:
  "\<not> storageRegisteredForLocation (Location (Config (cloud exampleDriver))) westusSubnet \<and>
   updateSubnetServiceEndpoints (\<lambda>e. e) exampleDriver (exampleWorld westusSubnet) =
     Some (Return None,
       \<lparr>remote = exampleStore westusSubnet, subnetLockMap = {},
        calls = [LockEntryCall ''rgvnetsubnet'', GetCall ''rg'' ''vnet'' ''subnet'' [],
                 UnlockEntryCall ''rgvnetsubnet'']\<rparr>)"
proof -
  have absent: "\<not> storageRegisteredForLocation (Location (Config (cloud exampleDriver))) westusSubnet"
    by (simp add: storageRegisteredForLocation_def endpointsOf_def westusSubnet_def
        exampleDriver_simps)
  have ex: "storageServiceExists (endpointsOf westusSubnet)"
    by (simp add: endpointsOf_def westusSubnet_def storageService_def)
  have free: "lockKey (Config (cloud exampleDriver)) \<notin> subnetLockMap (exampleWorld westusSubnet)"
    by (simp add: exampleWorld_def)
  have "updateSubnetServiceEndpoints (\<lambda>e. e) exampleDriver (exampleWorld westusSubnet) =
     Some (Return None,
       \<lparr>remote = exampleStore westusSubnet, subnetLockMap = {},
        calls = [LockEntryCall ''rgvnetsubnet'', GetCall ''rg'' ''vnet'' ''subnet'' [],
                 UnlockEntryCall ''rgvnetsubnet'']\<rparr>)"
    using ex updateSubnetServiceEndpoints_eq
      [OF exampleDriver_simps(1) free refl refl refl refl refl, of "\<lambda>e. e"]
    by (simp add: exampleDriver_simps storeClient_def storeGet_def exampleWorld_def
        exampleStore_def)
  with absent show ?thesis by simp
qed

text \<open>
  Claim C2, amended. For every fetched subnet, a run that gets its lock looks for an
  endpoint whose service name is \<open>Microsoft.Storage\<close>, whatever its locations, and calls
  \<open>CreateOrUpdate\<close> exactly when there is none; what it then writes is the fetched
  subnet with the endpoint \<open>Microsoft.Storage\<close> for the driver's location appended to
  its endpoint list.
\<close>

theorem updateSubnet_writes_iff_service_absent:
  assumes "SubnetsClient (cloud d) = Some client"
    and "lockKey (Config (cloud d)) \<notin> subnetLockMap s"
    and "Get client (remote s) (effectiveResourceGroup (Config (cloud d)))
           (VnetName (Config (cloud d))) (SubnetName (Config (cloud d))) [] =
         ((subnet, None), w1)"
  shows "\<exists>r s'. updateSubnetServiceEndpoints fmtv d s = Some (r, s') \<and>
     calls s' = calls s @
       [LockEntryCall (lockKey (Config (cloud d))),
        GetCall (effectiveResourceGroup (Config (cloud d))) (VnetName (Config (cloud d)))
          (SubnetName (Config (cloud d))) []] @
       (if \<exists>v \<in> set (endpointsOf subnet). Service v = Some storageService then []
        else [CreateOrUpdateCall (effectiveResourceGroup (Config (cloud d)))
                (VnetName (Config (cloud d))) (SubnetName (Config (cloud d)))
                (withStorageEndpoint (Location (Config (cloud d))) subnet)]) @
       [UnlockEntryCall (lockKey (Config (cloud d)))] \<and>
     endpointsOf (withStorageEndpoint (Location (Config (cloud d))) subnet) =
       endpointsOf subnet @
         [\<lparr>Service = Some storageService, Locations = Some [Location (Config (cloud d))]\<rparr>]"
  using assms(3)
  by (simp add: updateSubnetServiceEndpoints_eq [OF assms(1,2) refl refl refl refl refl]
      storageServiceExists_iff [symmetric] endpointsOf_withStorageEndpoint
      split: prod.splits option.splits)

theorem updateSubnet_writes_iff_service_absent_witness:
  "\<exists>r s'. updateSubnetServiceEndpoints (\<lambda>e. e) exampleDriver (exampleWorld bareSubnet) = Some (r, s') \<and>
     calls s' =
       [LockEntryCall ''rgvnetsubnet'', GetCall ''rg'' ''vnet'' ''subnet'' [],
        CreateOrUpdateCall ''rg'' ''vnet'' ''subnet''
          \<lparr>SubnetPropertiesFormat = Some
             \<lparr>AddressPrefix = None,
              ServiceEndpoints = Some
                [\<lparr>Service = Some ''Microsoft.Storage'', Locations = Some [''eastus'']\<rparr>]\<rparr>,
           Name = Some ''subnet''\<rparr>,
        UnlockEntryCall ''rgvnetsubnet'']"
proof -
  have free: "lockKey (Config (cloud exampleDriver)) \<notin> subnetLockMap (exampleWorld bareSubnet)"
    by (simp add: exampleWorld_def)
  have get: "Get storeClient (remote (exampleWorld bareSubnet))
      (effectiveResourceGroup (Config (cloud exampleDriver)))
      (VnetName (Config (cloud exampleDriver))) (SubnetName (Config (cloud exampleDriver))) [] =
      ((bareSubnet, None), exampleStore bareSubnet)"
    by (simp add: exampleDriver_simps storeClient_def storeGet_def exampleWorld_def
        exampleStore_def)
  from updateSubnet_writes_iff_service_absent [OF exampleDriver_simps(1) free get, of "\<lambda>e. e"]
  show ?thesis
    by (simp add: exampleDriver_simps exampleWorld_def endpointsOf_def bareSubnet_def
        withStorageEndpoint_def zeroSubnetPropertiesFormat_def storageService_def)
qed

lemma updateSubnetLocked_no_panic:
  "fst (updateSubnetLocked fmtv client rg loc vn sn s) \<noteq> Panic"
  by (simp add: updateSubnetLocked_eq split: prod.splits option.splits)

lemma updateSubnetServiceEndpoints_no_panic:
  "updateSubnetServiceEndpoints fmtv d s \<noteq> Some (Panic, s')"
proof (cases "SubnetsClient (cloud d)")
  case None
  then show ?thesis by (simp add: updateSubnetServiceEndpoints_def)
next
  case (Some client)
  show ?thesis
    using updateSubnetLocked_no_panic [of fmtv client "effectiveResourceGroup (Config (cloud d))"
        "Location (Config (cloud d))" "VnetName (Config (cloud d))" "SubnetName (Config (cloud d))"
        "s\<lparr>subnetLockMap := insert (lockKey (Config (cloud d))) (subnetLockMap s),
                      calls := calls s @ [LockEntryCall (lockKey (Config (cloud d)))]\<rparr>"]
    by (cases "updateSubnetLocked fmtv client (effectiveResourceGroup (Config (cloud d)))
        (Location (Config (cloud d))) (VnetName (Config (cloud d))) (SubnetName (Config (cloud d)))
        (s\<lparr>subnetLockMap := insert (lockKey (Config (cloud d))) (subnetLockMap s),
                      calls := calls s @ [LockEntryCall (lockKey (Config (cloud d)))]\<rparr>)")
      (simp add: updateSubnetServiceEndpoints_unfold [OF Some])
qed

text \<open>
  Claim C9. No run of \<open>updateSubnetServiceEndpoints\<close> panics on the fetched subnet,
  whatever \<open>Get\<close> hands back. When the fetched subnet has a nil
  \<open>SubnetPropertiesFormat\<close> or a nil \<open>ServiceEndpoints\<close>, the run reads the missing
  part as the empty list: it goes on to \<open>CreateOrUpdate\<close> with the parts initialised and
  the storage endpoint as the only endpoint, and returns what that call gives.
\<close>

theorem updateSubnet_nil_parts_safe:
  "(\<forall>s'. updateSubnetServiceEndpoints fmtv d s \<noteq> Some (Panic, s')) \<and>
   (SubnetsClient (cloud d) = Some client \<and>
    lockKey (Config (cloud d)) \<notin> subnetLockMap s \<and>
    Get client (remote s) (effectiveResourceGroup (Config (cloud d)))
      (VnetName (Config (cloud d))) (SubnetName (Config (cloud d))) [] = ((subnet, None), w1) \<and>
    (SubnetPropertiesFormat subnet = None \<or>
     (\<exists>props. SubnetPropertiesFormat subnet = Some props \<and> ServiceEndpoints props = None)) \<and>
    CreateOrUpdate client w1 (effectiveResourceGroup (Config (cloud d)))
      (VnetName (Config (cloud d))) (SubnetName (Config (cloud d)))
      (withStorageEndpoint (Location (Config (cloud d))) subnet) = (err, w2)
    \<longrightarrow>
    endpointsOf (withStorageEndpoint (Location (Config (cloud d))) subnet) =
      [\<lparr>Service = Some storageService, Locations = Some [Location (Config (cloud d))]\<rparr>] \<and>
    updateSubnetServiceEndpoints fmtv d s =
      Some ((case err of
               None \<Rightarrow> Return None
             | Some e \<Rightarrow> Return (Some (Errorf (''failed to update the subnet '' @
                 SubnetName (Config (cloud d)) @ '' under vnet '' @
                 VnetName (Config (cloud d)) @ '': '' @ fmtv e)))),
            s\<lparr>remote := w2,
              calls := calls s @
                [LockEntryCall (lockKey (Config (cloud d))),
                 GetCall (effectiveResourceGroup (Config (cloud d)))
                   (VnetName (Config (cloud d))) (SubnetName (Config (cloud d))) [],
                 CreateOrUpdateCall (effectiveResourceGroup (Config (cloud d)))
                   (VnetName (Config (cloud d))) (SubnetName (Config (cloud d)))
                   (withStorageEndpoint (Location (Config (cloud d))) subnet),
                 UnlockEntryCall (lockKey (Config (cloud d)))]\<rparr>))"
proof (intro conjI allI impI, goal_cases)
  case (1 s')
  show ?case by (rule updateSubnetServiceEndpoints_no_panic)
next
  case 2
  then have "endpointsOf subnet = []"
    by (auto simp: endpointsOf_def)
  then show ?case by (simp add: endpointsOf_withStorageEndpoint)
next
  case 3
  then have e: "endpointsOf subnet = []"
    by (auto simp: endpointsOf_def)
  from 3 have c: "SubnetsClient (cloud d) = Some client"
    and f: "lockKey (Config (cloud d)) \<notin> subnetLockMap s" by simp_all
  from 3 e show ?case
    by (simp add: updateSubnetServiceEndpoints_eq [OF c f refl refl refl refl refl])
qed

theorem updateSubnet_nil_parts_safe_witness:
  "\<exists>w2. updateSubnetServiceEndpoints (\<lambda>e. e) exampleDriver (exampleWorld bareSubnet) =
      Some (Return None,
        \<lparr>remote = w2, subnetLockMap = {},
         calls =
           [LockEntryCall ''rgvnetsubnet'', GetCall ''rg'' ''vnet'' ''subnet'' [],
            CreateOrUpdateCall ''rg'' ''vnet'' ''subnet''
              \<lparr>SubnetPropertiesFormat = Some
                 \<lparr>AddressPrefix = None,
                  ServiceEndpoints = Some
                    [\<lparr>Service = Some ''Microsoft.Storage'', Locations = Some [''eastus'']\<rparr>]\<rparr>,
               Name = Some ''subnet''\<rparr>,
            UnlockEntryCall ''rgvnetsubnet'']\<rparr>)"
proof -
  have free: "lockKey (Config (cloud exampleDriver)) \<notin> subnetLockMap (exampleWorld bareSubnet)"
    by (simp add: exampleWorld_def)
  have get: "Get storeClient (remote (exampleWorld bareSubnet))
      (effectiveResourceGroup (Config (cloud exampleDriver)))
      (VnetName (Config (cloud exampleDriver))) (SubnetName (Config (cloud exampleDriver))) [] =
      ((bareSubnet, None), exampleStore bareSubnet)"
    by (simp add: exampleDriver_simps storeClient_def storeGet_def exampleWorld_def
        exampleStore_def)
  have nil: "SubnetPropertiesFormat bareSubnet = None"
    by (simp add: bareSubnet_def)
  obtain w2 where put: "CreateOrUpdate storeClient (exampleStore bareSubnet)
      (effectiveResourceGroup (Config (cloud exampleDriver)))
      (VnetName (Config (cloud exampleDriver))) (SubnetName (Config (cloud exampleDriver)))
      (withStorageEndpoint (Location (Config (cloud exampleDriver))) bareSubnet) = (None, w2)"
    by (simp add: exampleDriver_simps storeClient_def storeCreateOrUpdate_def exampleStore_def)
  from updateSubnet_nil_parts_safe [of "\<lambda>e. e" exampleDriver "exampleWorld bareSubnet"
      storeClient bareSubnet "exampleStore bareSubnet" None w2]
    exampleDriver_simps(1) free get nil put
  have "updateSubnetServiceEndpoints (\<lambda>e. e) exampleDriver (exampleWorld bareSubnet) =
      Some (Return None,
        (exampleWorld bareSubnet)\<lparr>remote := w2,
         calls := calls (exampleWorld bareSubnet) @
           [LockEntryCall (lockKey (Config (cloud exampleDriver))),
                 GetCall (effectiveResourceGroup (Config (cloud exampleDriver)))
                   (VnetName (Config (cloud exampleDriver))) (SubnetName (Config (cloud exampleDriver))) [],
                 CreateOrUpdateCall (effectiveResourceGroup (Config (cloud exampleDriver)))
                   (VnetName (Config (cloud exampleDriver))) (SubnetName (Config (cloud exampleDriver)))
                   (withStorageEndpoint (Location (Config (cloud exampleDriver))) bareSubnet),
                 UnlockEntryCall (lockKey (Config (cloud exampleDriver)))]\<rparr>)"
    by simp
  then show ?thesis
    by (simp add: exampleDriver_simps exampleWorld_def endpointsOf_def bareSubnet_def
        withStorageEndpoint_def zeroSubnetPropertiesFormat_def storageService_def)
qed

text \<open>
  Claim C5, amended. A run that returns gives a non-nil error exactly when the
  \<open>SubnetsClient\<close> is nil, \<open>Get\<close> fails, or, no endpoint naming the storage service
  being there, \<open>CreateOrUpdate\<close> fails. A remote error is not handed on as it is: the
  error returned is a new one whose text is \<open>failed to get the subnet S under vnet V: \<close>
  (or \<open>failed to update the subnet S under vnet V: \<close>) followed by the remote error as
  \<open>%v\<close> prints it. Nothing is retried (each remote call is made at most once) and the
  remote error is looked at only for being nil or not.
\<close>

theorem updateSubnet_error_cases:
  assumes "updateSubnetServiceEndpoints fmtv d s = Some (r, s')"
  shows "r = Return
      (case SubnetsClient (cloud d) of
         None \<Rightarrow> Some (Errorf ''SubnetsClient is nil'')
       | Some client \<Rightarrow>
          (case Get client (remote s) (effectiveResourceGroup (Config (cloud d)))
                  (VnetName (Config (cloud d))) (SubnetName (Config (cloud d))) [] of
             ((subnet, Some e), w1) \<Rightarrow>
               Some (Errorf (''failed to get the subnet '' @ SubnetName (Config (cloud d)) @
                 '' under vnet '' @ VnetName (Config (cloud d)) @ '': '' @ fmtv e))
           | ((subnet, None), w1) \<Rightarrow>
               if \<exists>v \<in> set (endpointsOf subnet). Service v = Some storageService then None
               else (case fst (CreateOrUpdate client w1 (effectiveResourceGroup (Config (cloud d)))
                            (VnetName (Config (cloud d))) (SubnetName (Config (cloud d)))
                            (withStorageEndpoint (Location (Config (cloud d))) subnet)) of
                       Some e \<Rightarrow>
                         Some (Errorf (''failed to update the subnet '' @
                           SubnetName (Config (cloud d)) @ '' under vnet '' @
                           VnetName (Config (cloud d)) @ '': '' @ fmtv e))
                     | None \<Rightarrow> None))) \<and>
    length (filter isGet (drop (length (calls s)) (calls s'))) \<le> 1 \<and>
    length (filter isCreateOrUpdate (drop (length (calls s)) (calls s'))) \<le> 1"
proof (cases "SubnetsClient (cloud d)")
  case None
  with assms show ?thesis
    by (auto simp: updateSubnetServiceEndpoints_def)
next
  case (Some client)
  from assms Some have free: "lockKey (Config (cloud d)) \<notin> subnetLockMap s"
    by (auto simp: updateSubnetServiceEndpoints_unfold [OF Some] split: if_splits)
  from assms show ?thesis
    unfolding updateSubnetServiceEndpoints_eq [OF Some free refl refl refl refl refl]
    by (auto simp: Some storageServiceExists_iff split: prod.splits option.splits if_splits)
qed


theorem updateSubnet_error_cases_witness:
  "updateSubnetServiceEndpoints (\<lambda>e. e) exampleDriver failingWorld =
     Some (Return (Some (Errorf ''failed to get the subnet subnet under vnet vnet: boom'')),
       \<lparr>remote = failingStore, subnetLockMap = {},
        calls = [LockEntryCall ''rgvnetsubnet'', GetCall ''rg'' ''vnet'' ''subnet'' [],
                 UnlockEntryCall ''rgvnetsubnet'']\<rparr>) \<and>
   length (filter isGet [LockEntryCall ''rgvnetsubnet'', GetCall ''rg'' ''vnet'' ''subnet'' [],
                 UnlockEntryCall ''rgvnetsubnet'']) \<le> 1"
proof -
  have free: "lockKey (Config (cloud exampleDriver)) \<notin> subnetLockMap failingWorld"
    by (simp add: failingWorld_def)
  have run: "updateSubnetServiceEndpoints (\<lambda>e. e) exampleDriver failingWorld =
     Some (Return (Some (Errorf ''failed to get the subnet subnet under vnet vnet: boom'')),
       \<lparr>remote = failingStore, subnetLockMap = {},
        calls = [LockEntryCall ''rgvnetsubnet'', GetCall ''rg'' ''vnet'' ''subnet'' [],
                 UnlockEntryCall ''rgvnetsubnet'']\<rparr>)"
    using updateSubnetServiceEndpoints_eq
      [OF exampleDriver_simps(1) free refl refl refl refl refl, of "\<lambda>e. e"]
    by (simp add: exampleDriver_simps storeClient_def storeGet_def failingWorld_def
        failingStore_def)
  from updateSubnet_error_cases [OF run] run show ?thesis
    by (simp add: failingWorld_def)
qed

text \<open>
  Claim C5, as stated: errors of the remote fetch reach the caller unmodified. It fails:
  the fetch below fails with the error \<open>boom\<close>, and the caller gets another error, made
  by \<open>fmt.Errorf\<close>, with another text.
\<close>

theorem updateSubnet_error_unmodified_counterexample:
  "snd (fst (Get storeClient (remote failingWorld) ''rg'' ''vnet'' ''subnet'' [])) = Some ''boom'' \<and>
   updateSubnetServiceEndpoints (\<lambda>e. e) exampleDriver failingWorld =
     Some (Return (Some (Errorf ''failed to get the subnet subnet under vnet vnet: boom'')),
       \<lparr>remote = failingStore, subnetLockMap = {},
        calls = [LockEntryCall ''rgvnetsubnet'', GetCall ''rg'' ''vnet'' ''subnet'' [],
                 UnlockEntryCall ''rgvnetsubnet'']\<rparr>) \<and>
   Errorf ''failed to get the subnet subnet under vnet vnet: boom'' \<noteq>
     (External ''boom'' :: string error) \<and>
   ''failed to get the subnet subnet under vnet vnet: boom'' \<noteq> ''boom''"
proof -
  have free: "lockKey (Config (cloud exampleDriver)) \<notin> subnetLockMap failingWorld"
    by (simp add: failingWorld_def)
  have run: "updateSubnetServiceEndpoints (\<lambda>e. e) exampleDriver failingWorld =
     Some (Return (Some (Errorf ''failed to get the subnet subnet under vnet vnet: boom'')),
       \<lparr>remote = failingStore, subnetLockMap = {},
        calls = [LockEntryCall ''rgvnetsubnet'', GetCall ''rg'' ''vnet'' ''subnet'' [],
                 UnlockEntryCall ''rgvnetsubnet'']\<rparr>)"
    using updateSubnetServiceEndpoints_eq
      [OF exampleDriver_simps(1) free refl refl refl refl refl, of "\<lambda>e. e"]
    by (simp add: exampleDriver_simps storeClient_def storeGet_def failingWorld_def
        failingStore_def)
  have get: "snd (fst (Get storeClient (remote failingWorld) ''rg'' ''vnet'' ''subnet'' [])) = Some ''boom''"
    by (simp add: storeClient_def storeGet_def failingWorld_def failingStore_def)
  from run get show ?thesis by simp
qed

text \<open>
  Claim C4. \<open>updateSubnetServiceEndpoints\<close> never returns holding the lock. It returns
  unless the client is there and the entry is held by someone else. Whenever it returns,
  on whichever way out, the lock map is as it was at the call. With a nil client no lock
  call is made at all; otherwise the calls of the run are \<open>LockEntry\<close> of the key first,
  \<open>UnlockEntry\<close> of the key last, no lock call in between, and the entry is free at the
  end.
\<close>

theorem updateSubnet_releases_lock:
  "(updateSubnetServiceEndpoints fmtv d s = None \<longleftrightarrow>
      SubnetsClient (cloud d) \<noteq> None \<and> lockKey (Config (cloud d)) \<in> subnetLockMap s) \<and>
   (\<forall>r s'. updateSubnetServiceEndpoints fmtv d s = Some (r, s') \<longrightarrow>
      subnetLockMap s' = subnetLockMap s \<and>
      (if SubnetsClient (cloud d) = None then calls s' = calls s
       else lockKey (Config (cloud d)) \<notin> subnetLockMap s' \<and>
            (\<exists>mid. calls s' = calls s @ [LockEntryCall (lockKey (Config (cloud d)))] @ mid @
                                [UnlockEntryCall (lockKey (Config (cloud d)))] \<and>
                   filter isLockCall mid = [])))"
proof (cases "SubnetsClient (cloud d)")
  case None
  then show ?thesis
    by (auto simp: updateSubnetServiceEndpoints_def)
next
  case (Some client)
  show ?thesis
  proof (cases "lockKey (Config (cloud d)) \<in> subnetLockMap s")
    case True
    then show ?thesis
      by (simp add: Some updateSubnetServiceEndpoints_unfold [OF Some])
  next
    case False
    show ?thesis
      unfolding updateSubnetServiceEndpoints_eq [OF Some False refl refl refl refl refl]
      using False
      by (auto simp: Some split: prod.splits option.splits if_splits)
  qed
qed


theorem updateSubnet_releases_lock_witness:
  "(\<exists>s'. updateSubnetServiceEndpoints (\<lambda>e. e) exampleDriver (exampleWorld bareSubnet) =
           Some (Return None, s') \<and> subnetLockMap s' = {}) \<and>
   (\<exists>s'. updateSubnetServiceEndpoints (\<lambda>e. e) noClientDriver (exampleWorld bareSubnet) =
           Some (Return (Some (Errorf ''SubnetsClient is nil'')), s') \<and> subnetLockMap s' = {}) \<and>
   (\<exists>s'. updateSubnetServiceEndpoints (\<lambda>e. e) exampleDriver failingWorld =
           Some (Return (Some (Errorf ''failed to get the subnet subnet under vnet vnet: boom'')), s') \<and>
         subnetLockMap s' = {}) \<and>
   (\<exists>s'. updateSubnetServiceEndpoints (\<lambda>e. e) exampleDriver readOnlyWorld =
           Some (Return (Some (Errorf ''failed to update the subnet subnet under vnet vnet: denied'')), s') \<and>
         subnetLockMap s' = {})"
proof -
  have free1: "lockKey (Config (cloud exampleDriver)) \<notin> subnetLockMap (exampleWorld bareSubnet)"
    by (simp add: exampleWorld_def)
  have "\<exists>s'. updateSubnetServiceEndpoints (\<lambda>e. e) exampleDriver (exampleWorld bareSubnet) =
           Some (Return None, s')"
    using updateSubnetServiceEndpoints_eq
      [OF exampleDriver_simps(1) free1 refl refl refl refl refl, of "\<lambda>e. e"]
    by (simp add: exampleDriver_simps storeClient_def storeGet_def storeCreateOrUpdate_def
        exampleWorld_def exampleStore_def endpointsOf_def bareSubnet_def)
  then obtain s1 where run1:
    "updateSubnetServiceEndpoints (\<lambda>e. e) exampleDriver (exampleWorld bareSubnet) =
       Some (Return None, s1)" ..
  have c1: "subnetLockMap s1 = {}"
    using updateSubnet_releases_lock [of "\<lambda>e. e" exampleDriver "exampleWorld bareSubnet"] run1
    by (simp add: exampleWorld_def)
  have run2: "updateSubnetServiceEndpoints (\<lambda>e. e) noClientDriver (exampleWorld bareSubnet) =
       Some (Return (Some (Errorf ''SubnetsClient is nil'')), exampleWorld bareSubnet)"
    by (simp add: updateSubnetServiceEndpoints_def noClientDriver_def)
  have c2: "subnetLockMap (exampleWorld bareSubnet) = {}"
    by (simp add: exampleWorld_def)
  have free3: "lockKey (Config (cloud exampleDriver)) \<notin> subnetLockMap failingWorld"
    by (simp add: failingWorld_def)
  have "\<exists>s'. updateSubnetServiceEndpoints (\<lambda>e. e) exampleDriver failingWorld =
           Some (Return (Some (Errorf ''failed to get the subnet subnet under vnet vnet: boom'')), s')"
    using updateSubnetServiceEndpoints_eq
      [OF exampleDriver_simps(1) free3 refl refl refl refl refl, of "\<lambda>e. e"]
    by (simp add: exampleDriver_simps storeClient_def storeGet_def failingWorld_def
        failingStore_def)
  then obtain s3 where run3:
    "updateSubnetServiceEndpoints (\<lambda>e. e) exampleDriver failingWorld =
       Some (Return (Some (Errorf ''failed to get the subnet subnet under vnet vnet: boom'')), s3)" ..
  have c3: "subnetLockMap s3 = {}"
    using updateSubnet_releases_lock [of "\<lambda>e. e" exampleDriver failingWorld] run3
    by (simp add: failingWorld_def)
  have free4: "lockKey (Config (cloud exampleDriver)) \<notin> subnetLockMap readOnlyWorld"
    by (simp add: readOnlyWorld_def)
  have "\<exists>s'. updateSubnetServiceEndpoints (\<lambda>e. e) exampleDriver readOnlyWorld =
           Some (Return (Some (Errorf ''failed to update the subnet subnet under vnet vnet: denied'')), s')"
    using updateSubnetServiceEndpoints_eq
      [OF exampleDriver_simps(1) free4 refl refl refl refl refl, of "\<lambda>e. e"]
    by (simp add: exampleDriver_simps storeClient_def storeGet_def storeCreateOrUpdate_def
        readOnlyWorld_def endpointsOf_def bareSubnet_def)
  then obtain s4 where run4:
    "updateSubnetServiceEndpoints (\<lambda>e. e) exampleDriver readOnlyWorld =
       Some (Return (Some (Errorf ''failed to update the subnet subnet under vnet vnet: denied'')), s4)" ..
  have c4: "subnetLockMap s4 = {}"
    using updateSubnet_releases_lock [of "\<lambda>e. e" exampleDriver readOnlyWorld] run4
    by (simp add: readOnlyWorld_def)
  from run1 c1 run2 c2 run3 c3 run4 c4 show ?thesis by blast
qed

lemma storageCount_withStorageEndpoint:
  "\<not> storageServiceExists (endpointsOf subnet) \<Longrightarrow>
   storageCount (endpointsOf (withStorageEndpoint loc subnet)) = 1"
  by (simp add: endpointsOf_withStorageEndpoint storageCount_def storageServiceExists_iff)

lemma storeLike_storeClient: "storeLike storeClient"
  by (simp add: storeLike_def storeClient_def storeGet_def storeCreateOrUpdate_def
      split: sum.splits option.splits)

text \<open>
  Claim C1. On a remote that behaves as a store, whatever subnet it holds: when a run
  has returned, a second run right after it returns the same, leaves the remote as the
  first run left it (so the final service-endpoint list is that of one run), and every
  subnet written by the two runs names the storage service in exactly one endpoint. When
  the first run returned nil, the second finds the endpoint and writes nothing.
\<close>

theorem updateSubnet_idempotent:
  assumes client: "SubnetsClient (cloud d) = Some client"
    and store: "storeLike client"
    and run1: "updateSubnetServiceEndpoints fmtv d s = Some (r1, s1)"
  shows "\<exists>s2. updateSubnetServiceEndpoints fmtv d s1 = Some (r1, s2) \<and>
           remote s2 = remote s1 \<and>
           (\<forall>subnet \<in> set (writtenSubnets (drop (length (calls s)) (calls s2))).
              storageCount (endpointsOf subnet) = 1) \<and>
           (r1 = Return None \<longrightarrow> writtenSubnets (drop (length (calls s1)) (calls s2)) = [])"
proof -
  define k where "k = lockKey (Config (cloud d))"
  define rg where "rg = effectiveResourceGroup (Config (cloud d))"
  define loc where "loc = Location (Config (cloud d))"
  define vn where "vn = VnetName (Config (cloud d))"
  define sn where "sn = SubnetName (Config (cloud d))"
  from run1 have free: "lockKey (Config (cloud d)) \<notin> subnetLockMap s"
    by (auto simp: updateSubnetServiceEndpoints_unfold [OF client] split: if_splits)
  note eq1 = updateSubnetServiceEndpoints_eq [OF client free k_def rg_def loc_def vn_def sn_def, of fmtv]
  from store have pure: "\<And>w x. snd (Get client w rg vn sn x) = w"
    and failed: "\<And>w subnet e. fst (CreateOrUpdate client w rg vn sn subnet) = Some e \<Longrightarrow>
          snd (CreateOrUpdate client w rg vn sn subnet) = w"
    and raw: "\<And>w subnet x. fst (CreateOrUpdate client w rg vn sn subnet) = None \<Longrightarrow>
          fst (Get client (snd (CreateOrUpdate client w rg vn sn subnet)) rg vn sn x) = (subnet, None)"
    by (simp_all add: storeLike_def)
  obtain subnet err w1 where get: "Get client (remote s) rg vn sn [] = ((subnet, err), w1)"
    by (metis surj_pair)
  from pure [of "remote s" "[]"] get have w1: "w1 = remote s" by simp
  have locks: "subnetLockMap s1 = subnetLockMap s"
    using run1 unfolding eq1 by (auto split: prod.splits option.splits if_splits)
  with free have free1: "lockKey (Config (cloud d)) \<notin> subnetLockMap s1" by simp
  note eq2 = updateSubnetServiceEndpoints_eq [OF client free1 k_def rg_def loc_def vn_def sn_def, of fmtv]
  show ?thesis
  proof (cases err)
    case (Some e)
    with run1 get w1 have s1: "remote s1 = remote s"
      and r1: "r1 = Return (Some (Errorf (''failed to get the subnet '' @ sn @ '' under vnet '' @ vn @ '': '' @ fmtv e)))"
      and c1: "calls s1 = calls s @ [LockEntryCall k, GetCall rg vn sn [], UnlockEntryCall k]"
      unfolding eq1 by auto
    from s1 get Some w1 show ?thesis
      unfolding eq2 by (simp add: r1 c1)
  next
    case None
    show ?thesis
    proof (cases "storageServiceExists (endpointsOf subnet)")
      case True
      with run1 get w1 None have s1: "remote s1 = remote s"
        and r1: "r1 = Return None"
        and c1: "calls s1 = calls s @ [LockEntryCall k, GetCall rg vn sn [], UnlockEntryCall k]"
        unfolding eq1 by auto
      from s1 get None w1 True show ?thesis
        unfolding eq2 by (simp add: r1 c1)
    next
      case False
      obtain err2 w2 where put:
        "CreateOrUpdate client (remote s) rg vn sn (withStorageEndpoint loc subnet) = (err2, w2)"
        by (metis surj_pair)
      from run1 get w1 None False put have s1: "remote s1 = w2"
        and c1: "calls s1 = calls s @ [LockEntryCall k, GetCall rg vn sn [],
                   CreateOrUpdateCall rg vn sn (withStorageEndpoint loc subnet), UnlockEntryCall k]"
        and r1: "r1 = (case err2 of None \<Rightarrow> Return None
             | Some e \<Rightarrow> Return (Some (Errorf (''failed to update the subnet '' @ sn @
                 '' under vnet '' @ vn @ '': '' @ fmtv e))))"
        unfolding eq1 by auto
      note cnt = storageCount_withStorageEndpoint [OF False, of loc]
      show ?thesis
      proof (cases err2)
        case (Some e)
        with failed [of "remote s" "withStorageEndpoint loc subnet" e] put
        have "w2 = remote s" by simp
        with s1 get None w1 False put Some cnt show ?thesis
          unfolding eq2 by (simp add: r1 c1)
      next
        case None2: None
        from raw [of "remote s" "withStorageEndpoint loc subnet" "[]"] put None2
        have "fst (Get client w2 rg vn sn []) = (withStorageEndpoint loc subnet, None)"
          by simp
        moreover from pure [of w2 "[]"] have "snd (Get client w2 rg vn sn []) = w2" .
        ultimately have get2: "Get client w2 rg vn sn [] = ((withStorageEndpoint loc subnet, None), w2)"
          by (simp add: prod_eq_iff)
        from s1 get2 None2 cnt show ?thesis
          unfolding eq2
          by (simp add: r1 c1 storageServiceExists_withStorageEndpoint)
      qed
    qed
  qed
qed


theorem updateSubnet_idempotent_witness:
  "storeLike (storeClient :: (string remoteStore, string) SubnetsClient) \<and>
   (\<exists>s1 s2.
      updateSubnetServiceEndpoints (\<lambda>e. e) exampleDriver (exampleWorld bareSubnet) =
        Some (Return None, s1) \<and>
      updateSubnetServiceEndpoints (\<lambda>e. e) exampleDriver s1 = Some (Return None, s2) \<and>
      remote s2 = remote s1 \<and>
      subnets (remote s1) (''rg'', ''vnet'', ''subnet'') =
        Inr \<lparr>SubnetPropertiesFormat = Some
               \<lparr>AddressPrefix = None,
                ServiceEndpoints = Some
                  [\<lparr>Service = Some ''Microsoft.Storage'', Locations = Some [''eastus'']\<rparr>]\<rparr>,
             Name = Some ''subnet''\<rparr> \<and>
      writtenSubnets (drop (length (calls s1)) (calls s2)) = [])"
proof -
  have store: "storeLike (storeClient :: (string remoteStore, string) SubnetsClient)"
    by (rule storeLike_storeClient)
  have free: "lockKey (Config (cloud exampleDriver)) \<notin> subnetLockMap (exampleWorld bareSubnet)"
    by (simp add: exampleWorld_def)
  have "\<exists>s1. updateSubnetServiceEndpoints (\<lambda>e. e) exampleDriver (exampleWorld bareSubnet) =
           Some (Return None, s1) \<and>
         subnets (remote s1) (''rg'', ''vnet'', ''subnet'') =
           Inr \<lparr>SubnetPropertiesFormat = Some
               \<lparr>AddressPrefix = None,
                ServiceEndpoints = Some
                  [\<lparr>Service = Some ''Microsoft.Storage'', Locations = Some [''eastus'']\<rparr>]\<rparr>,
             Name = Some ''subnet''\<rparr>"
    using updateSubnetServiceEndpoints_eq
      [OF exampleDriver_simps(1) free refl refl refl refl refl, of "\<lambda>e. e"]
    by (simp add: exampleDriver_simps storeClient_def storeGet_def storeCreateOrUpdate_def
        exampleWorld_def exampleStore_def endpointsOf_def bareSubnet_def withStorageEndpoint_def
        zeroSubnetPropertiesFormat_def storageService_def)
  then obtain s1 where run1:
      "updateSubnetServiceEndpoints (\<lambda>e. e) exampleDriver (exampleWorld bareSubnet) =
         Some (Return None, s1)"
    and sub1: "subnets (remote s1) (''rg'', ''vnet'', ''subnet'') =
           Inr \<lparr>SubnetPropertiesFormat = Some
               \<lparr>AddressPrefix = None,
                ServiceEndpoints = Some
                  [\<lparr>Service = Some ''Microsoft.Storage'', Locations = Some [''eastus'']\<rparr>]\<rparr>,
             Name = Some ''subnet''\<rparr>"
    by blast
  from updateSubnet_idempotent [OF exampleDriver_simps(1) store run1]
  obtain s2 where "updateSubnetServiceEndpoints (\<lambda>e. e) exampleDriver s1 = Some (Return None, s2)"
    and "remote s2 = remote s1"
    and "writtenSubnets (drop (length (calls s1)) (calls s2)) = []"
    by auto
  with store run1 sub1 show ?thesis by blast
qed

section \<open>Claims on getCloudProvider\<close>

lemmas env_defs = exampleEnv_def badFileEnv_def badFileInClusterEnv_def windowsEnv_def
  goodFileEnv_def

lemmas getCloudProvider_defs = getCloudProvider_def getCloudProvider_secret_def
  getCloudProvider_file_def getCloudProvider_finish_def getKubeClient_def os_IsNotExist_def
  zeroCloud_def zeroConfig_def DefaultAzureCredentialFileEnv_def DefaultCredFilePathLinux_def
  DefaultCredFilePathWindows_def deref_def fmtError_def

text \<open>
  Claim C7. The claim says that a cloud configuration that cannot be loaded still gives
  a non-nil \<open>Cloud\<close> and a nil error. The code does not do so when the credential file
  opens and \<open>NewCloudWithoutFeatureGates\<close> fails with a nil \<open>Cloud\<close>: line 89 has
  replaced \<open>az\<close> by that nil. Outside a cluster the function returns a nil \<open>Cloud\<close>
  with a nil error; inside one, where a clientset was built, line 94 reads
  \<open>az.KubeClient\<close> through the nil pointer and the function panics.
\<close>

theorem getCloudProvider_nil_cloud:
  "getCloudProvider badFileEnv [] ''node-1'' [] [] [] =
     (Return (None, None), [''/tmp/azure.json'']) \<and>
   getCloudProvider badFileInClusterEnv [] ''node-1'' [] [] [] =
     (Panic, [''/tmp/azure.json''])"
  by (simp add: getCloudProvider_defs env_defs)

text \<open>
  The other half of that claim holds: a non-nil error comes from line 57 only.
\<close>

lemma getCloudProvider_error_only_from_kubeclient:
  assumes "fst (getCloudProvider env kubeconfig nodeID secretName secretNamespace userAgent) =
             Return (az, Some e)"
  shows "\<exists>az0. az = Some az0 \<and>
           getCloudProvider_secret env kubeconfig secretName secretNamespace userAgent =
             Inl (az0, e)"
  using assms
  by (auto simp: getCloudProvider_def getCloudProvider_finish_def deref_def Let_def
      split: sum.splits prod.splits option.splits if_splits result.splits)

text \<open>
  Claim C8. When the function has got past building the clientset and the configuration
  read from the secret lacks the tenant, the subscription or the resource group, it opens
  one file: the one \<open>AZURE_CREDENTIAL_FILE\<close> names when that variable is set,
  otherwise \<open>C:\k\azure.json\<close> (the backslash is byte 0x5C) on Windows and
  \<open>/etc/kubernetes/azure.json\<close> anywhere else. When the file opens, the \<open>Cloud\<close> is
  what \<open>NewCloudWithoutFeatureGates\<close> makes of it.
\<close>

theorem getCloudProvider_credential_file:
  assumes "getCloudProvider_secret env kubeconfig secretName secretNamespace userAgent =
             Inr (az, kubeClient, err)"
    and "TenantID (Config az) = [] \<or> SubscriptionID (Config az) = [] \<or>
         ResourceGroup (Config az) = []"
    and "credFile =
           (if snd (LookupEnv env ''AZURE_CREDENTIAL_FILE'')
            then fst (LookupEnv env ''AZURE_CREDENTIAL_FILE'')
            else if GOOS env = ''windows''
                 then ''C:'' @ [CHR 0x5C] @ ''k'' @ [CHR 0x5C] @ ''azure.json''
                 else ''/etc/kubernetes/azure.json'')"
  shows "snd (getCloudProvider env kubeconfig nodeID secretName secretNamespace userAgent) =
           [credFile] \<and>
         fst (getCloudProvider_file env az err) =
           (if snd (Open env credFile) \<noteq> None then Some az
            else fst (NewCloudWithoutFeatureGates env (fst (Open env credFile)) False))"
  using assms
  by (auto simp: getCloudProvider_def getCloudProvider_file_def Let_def
      DefaultAzureCredentialFileEnv_def DefaultCredFilePathLinux_def DefaultCredFilePathWindows_def
      split: prod.splits)

theorem getCloudProvider_credential_file_witness:
  "snd (getCloudProvider exampleEnv [] ''node-1'' [] [] []) = [''/etc/kubernetes/azure.json''] \<and>
   snd (getCloudProvider windowsEnv [] ''node-1'' [] [] []) =
     [[CHR ''C'', CHR '':'', CHR 0x5C, CHR ''k'', CHR 0x5C] @ ''azure.json''] \<and>
   snd (getCloudProvider goodFileEnv [] ''node-1'' [] [] []) = [''/tmp/azure.json''] \<and>
   fst (getCloudProvider_file goodFileEnv
          (zeroCloud\<lparr>CloudConfigKey := ''cloud-config''\<rparr>) (Some (External ''not in cluster''))) =
     Some exampleCloud"
proof -
  have s1: "getCloudProvider_secret exampleEnv [] [] [] [] =
      Inr (zeroCloud\<lparr>CloudConfigKey := ''cloud-config''\<rparr>, None, Some (External ''not in cluster''))"
    by (simp add: getCloudProvider_defs env_defs)
  have s2: "getCloudProvider_secret windowsEnv [] [] [] [] =
      Inr (zeroCloud\<lparr>CloudConfigKey := ''cloud-config''\<rparr>, None, Some (External ''not in cluster''))"
    by (simp add: getCloudProvider_defs env_defs)
  have s3: "getCloudProvider_secret goodFileEnv [] [] [] [] =
      Inr (zeroCloud\<lparr>CloudConfigKey := ''cloud-config''\<rparr>, None, Some (External ''not in cluster''))"
    by (simp add: getCloudProvider_defs env_defs)
  have inc: "TenantID (Config (zeroCloud\<lparr>CloudConfigKey := ''cloud-config''\<rparr> :: (string, unit) Cloud)) = [] \<or>
      SubscriptionID (Config (zeroCloud\<lparr>CloudConfigKey := ''cloud-config''\<rparr> :: (string, unit) Cloud)) = [] \<or>
      ResourceGroup (Config (zeroCloud\<lparr>CloudConfigKey := ''cloud-config''\<rparr> :: (string, unit) Cloud)) = []"
    by (simp add: zeroCloud_def zeroConfig_def)
  from getCloudProvider_credential_file [OF s1 inc refl, of "''node-1''"]
       getCloudProvider_credential_file [OF s2 inc refl, of "''node-1''"]
       getCloudProvider_credential_file [OF s3 inc refl, of "''node-1''"]
  show ?thesis
    by (simp add: env_defs)
qed


text \<open>
  Claim C10. Let \<open>az1\<close> and \<open>err1\<close> be the \<open>Cloud\<close> and the error after the two
  loading blocks (line 92), and \<open>az2\<close> that \<open>Cloud\<close> with the clientset put back
  (line 94). With an empty \<open>nodeID\<close> and a nil \<open>err1\<close> the function returns \<open>az2\<close>
  with \<open>UseInstanceMetadata\<close> false; in every other case, a non-empty \<open>nodeID\<close>
  among them, it returns \<open>az2\<close> as it is.
\<close>

theorem getCloudProvider_UseInstanceMetadata:
  assumes "getCloudProvider_secret env kubeconfig secretName secretNamespace userAgent =
             Inr (az0, kubeClient, err0)"
    and "getCloudProvider_file env az0 err0 = (Some az1, err1, opened)"
    and "az2 = (if kubeClient \<noteq> None \<and> KubeClient az1 = None
                then az1\<lparr>KubeClient := kubeClient\<rparr> else az1)"
  shows "getCloudProvider env kubeconfig nodeID secretName secretNamespace userAgent =
           (Return
              (Some (if nodeID = [] \<and> err1 = None
                     then az2\<lparr>Config := (Config az2)\<lparr>UseInstanceMetadata := False\<rparr>\<rparr>
                     else az2),
               None),
            opened)"
  using assms
  by (auto simp: getCloudProvider_def getCloudProvider_finish_def deref_def Let_def)

theorem getCloudProvider_UseInstanceMetadata_witness:
  "UseInstanceMetadata (Config exampleCloud) \<and>
   getCloudProvider goodFileEnv [] [] [] [] [] =
     (Return (Some (exampleCloud\<lparr>Config := exampleConfig\<lparr>UseInstanceMetadata := False\<rparr>\<rparr>), None),
      [''/tmp/azure.json'']) \<and>
   getCloudProvider goodFileEnv [] ''node-1'' [] [] [] =
     (Return (Some exampleCloud, None), [''/tmp/azure.json''])"
proof -
  have s: "getCloudProvider_secret goodFileEnv [] [] [] [] =
      Inr (zeroCloud\<lparr>CloudConfigKey := ''cloud-config''\<rparr>, None, Some (External ''not in cluster''))"
    by (simp add: getCloudProvider_defs env_defs)
  have f: "getCloudProvider_file goodFileEnv (zeroCloud\<lparr>CloudConfigKey := ''cloud-config''\<rparr>)
      (Some (External ''not in cluster'')) = (Some exampleCloud, None, [''/tmp/azure.json''])"
    by (simp add: getCloudProvider_defs env_defs)
  have u: "UseInstanceMetadata (Config exampleCloud)"
    by (simp add: exampleCloud_def exampleConfig_def)
  from getCloudProvider_UseInstanceMetadata [OF s f refl, of "[]"]
       getCloudProvider_UseInstanceMetadata [OF s f refl, of "''node-1''"] u
  show ?thesis
    by (simp add: exampleCloud_def)
qed

end
